theory Spec2Isabelle
  imports Main "HOL-Library.Multiset"
begin

section \<open>Portable APIs for managing artifacts in MLMD (artifact_lib.py)\<close>

text \<open>
  The module has two functions, \<open>get_artifacts_by_ids\<close> and \<open>update_artifacts\<close>.
  Both talk to a metadata store through a handle. The store is an external library:
  its read primitive is a field of the handle (any function from an identifier
  sequence to a pair of record list and type list), its write primitive is observed
  through the log of the batches it has been called with. Calls to
  \<open>time.time\<close> and \<open>telemetry_utils.noop_telemetry\<close> compute nothing that
  either function returns or stores, and are left out.
\<close>

subsection \<open>Data model\<close>

text \<open>
  The MLMD artifact proto. \<open>id\<close> is an optional field tested with \<open>HasField\<close>, so
  it is an option; \<open>type_id\<close> and \<open>type\<close> are read and written as plain values.
  The field \<open>state_value\<close> holds what the \<open>state\<close> property of the TFX artifact
  reads and writes, \<open>properties\<close> stands for the remaining payload.
\<close>

record MlmdArtifact =
  id_a :: "int option"
  type_id :: int
  type :: string
  state_value :: string
  properties :: "(string \<times> string) list"

text \<open>The MLMD artifact type proto: identifier and name.\<close>

record ArtifactType =
  id_t :: int
  name :: string

text \<open>The TFX artifact (\<open>types.Artifact\<close>): one MLMD record and its type definition.\<close>

record Artifact =
  mlmd_artifact :: MlmdArtifact
  artifact_type :: ArtifactType

text \<open>
  The metadata handle. \<open>get_artifacts_and_types_by_artifact_ids\<close> is the store's read
  primitive; \<open>put_artifacts_calls\<close> lists, oldest first, the argument of every call
  of the store's write primitive \<open>put_artifacts\<close>.
\<close>

record Metadata =
  get_artifacts_and_types_by_artifact_ids ::
    "int list \<Rightarrow> MlmdArtifact list \<times> ArtifactType list"
  put_artifacts_calls :: "MlmdArtifact list list"

text \<open>
  The two exceptions the functions can end with: the \<open>ValueError\<close> raised by the
  module itself, with its message, and the \<open>KeyError\<close> of a failed dictionary
  lookup, with the key.
\<close>

datatype error = ValueError string | KeyError int

text \<open>
  TFX artifacts are objects owned by the caller and mutated in place, and one object
  may occur several times in a multi-map. They live in a heap indexed by references;
  the multi-map \<open>typing_utils.ArtifactMultiMap\<close> is a dictionary from a key to a
  sequence of references, in insertion order.
\<close>

type_synonym ref = nat
type_synonym heap = "ref \<Rightarrow> Artifact"
type_synonym ArtifactMultiMap = "(string \<times> ref list) list"

subsection \<open>Formatting of the identifier list\<close>

text \<open>
  The error message of \<open>get_artifacts_by_ids\<close> formats the identifier list with an
  f-string, that is with \<open>str\<close> of a list of integers: decimal numerals separated
  by a comma and a blank, in square brackets.
\<close>

text \<open>The decimal digit of a number below ten (the only arguments it is applied to).\<close>

definition digit_char :: "nat \<Rightarrow> char" where
  "digit_char d = ''0123456789'' ! d"

function str_nat :: "nat \<Rightarrow> string" where
  "str_nat n = (if n < 10 then [digit_char n] else str_nat (n div 10) @ [digit_char (n mod 10)])"
  by pat_completeness auto
termination
  by (relation "measure (\<lambda>n. n)") auto

definition str_int :: "int \<Rightarrow> string" where
  "str_int i = (if i < 0 then CHR ''-'' # str_nat (nat (- i)) else str_nat (nat i))"

fun join_comma :: "string list \<Rightarrow> string" where
  "join_comma [] = []"
| "join_comma [s] = s"
| "join_comma (s # t # ss) = s @ '', '' @ join_comma (t # ss)"

definition str_int_list :: "int list \<Rightarrow> string" where
  "str_int_list ids = ''['' @ join_comma (map str_int ids) @ '']''"

subsection \<open>get_artifacts_by_ids\<close>

text \<open>
  Modelled from the spec: \<open>artifact_utils.deserialize_artifact\<close> (tfx/types/artifact_utils.py
  is not part of the sources at hand). The spec describes its result as a typed artifact
  that wraps exactly one artifact record plus the resolved type definition.
\<close>

definition deserialize_artifact :: "ArtifactType \<Rightarrow> MlmdArtifact \<Rightarrow> Artifact" where
  "deserialize_artifact t a = \<lparr>mlmd_artifact = a, artifact_type = t\<rparr>"

text \<open>
  The dictionary comprehension \<open>{a.id: a for a in artifact_types}\<close>: entries are
  stored from left to right, a later entry replaces an earlier one with the same key.
\<close>

fun dict_by_id :: "ArtifactType list \<Rightarrow> (int \<rightharpoonup> ArtifactType) \<Rightarrow> (int \<rightharpoonup> ArtifactType)" where
  "dict_by_id [] d = d"
| "dict_by_id (a # as) d = dict_by_id as (d(id_t a \<mapsto> a))"

text \<open>
  The loop that fills the \<open>type\<close> field of every record. A lookup of a missing key
  raises \<open>KeyError\<close> and ends the loop at that record.
\<close>

fun set_types :: "(int \<rightharpoonup> ArtifactType) \<Rightarrow> MlmdArtifact list \<Rightarrow> error + MlmdArtifact list" where
  "set_types d [] = Inr []"
| "set_types d (a # as) =
     (case d (type_id a) of
        None \<Rightarrow> Inl (KeyError (type_id a))
      | Some t \<Rightarrow>
          (case set_types d as of
             Inl e \<Rightarrow> Inl e
           | Inr as' \<Rightarrow> Inr (a\<lparr>type := name t\<rparr> # as')))"

text \<open>The list comprehension that deserializes every record with its looked-up type.\<close>

fun deserialize_all :: "(int \<rightharpoonup> ArtifactType) \<Rightarrow> MlmdArtifact list \<Rightarrow> error + Artifact list" where
  "deserialize_all d [] = Inr []"
| "deserialize_all d (a # as) =
     (case d (type_id a) of
        None \<Rightarrow> Inl (KeyError (type_id a))
      | Some t \<Rightarrow>
          (case deserialize_all d as of
             Inl e \<Rightarrow> Inl e
           | Inr xs \<Rightarrow> Inr (deserialize_artifact t a # xs)))"

definition get_artifacts_by_ids :: "Metadata \<Rightarrow> int list \<Rightarrow> error + Artifact list" where
  "get_artifacts_by_ids metadata_handle artifact_ids =
     (case get_artifacts_and_types_by_artifact_ids metadata_handle artifact_ids of
        (mlmd_artifacts, artifact_types) \<Rightarrow>
          if length artifact_ids \<noteq> length mlmd_artifacts
          then Inl (ValueError (''Could not find all MLMD artifacts for ids: '' @ str_int_list artifact_ids))
          else
            (let artifact_types_by_id = dict_by_id artifact_types Map.empty in
             case set_types artifact_types_by_id mlmd_artifacts of
               Inl e \<Rightarrow> Inl e
             | Inr typed \<Rightarrow> deserialize_all artifact_types_by_id typed))"

subsection \<open>update_artifacts\<close>

text \<open>
  Modelled from the spec: the \<open>state\<close> property of \<open>types.Artifact\<close> (tfx/types/artifact.py
  is not part of the sources at hand). The spec describes it as the in-memory state field
  of the typed artifact, kept in the underlying artifact record, so that the records
  collected for the store carry the state that was set.
\<close>

definition state :: "Artifact \<Rightarrow> string" where
  "state x = state_value (mlmd_artifact x)"

definition set_state :: "string \<Rightarrow> Artifact \<Rightarrow> Artifact" where
  "set_state s x = x\<lparr>mlmd_artifact := (mlmd_artifact x)\<lparr>state_value := s\<rparr>\<rparr>"

text \<open>
  The statement \<open>if new_artifact_state: tfx_artifact.state = new_artifact_state\<close>
  on one artifact object: \<open>None\<close> and the empty string are both false in a condition.
\<close>

definition assign_state :: "string option \<Rightarrow> Artifact \<Rightarrow> Artifact" where
  "assign_state new_artifact_state tfx_artifact =
     (case new_artifact_state of
        None \<Rightarrow> tfx_artifact
      | Some s \<Rightarrow> if s = [] then tfx_artifact else set_state s tfx_artifact)"

text \<open>
  The loop over the flattened values of the multi-map. It carries the heap and the list
  \<open>mlmd_artifacts_to_update\<close>, which holds references: the records are read when the
  store is called. The heap is returned in both outcomes, since the caller sees the
  mutations made before an exception.
\<close>

fun update_loop :: "string option \<Rightarrow> ref list \<Rightarrow> heap \<Rightarrow> ref list \<Rightarrow> (error + ref list) \<times> heap" where
  "update_loop new_artifact_state [] hp to_update = (Inr to_update, hp)"
| "update_loop new_artifact_state (r # rs) hp to_update =
     (if id_a (mlmd_artifact (hp r)) = None
      then (Inl (ValueError ''Artifact must have an MLMD ID in order to be updated.''), hp)
      else update_loop new_artifact_state rs
             (hp(r := assign_state new_artifact_state (hp r))) (to_update @ [r]))"

text \<open>\<open>itertools.chain.from_iterable(tfx_artifact_map.values())\<close>.\<close>

definition chain_values :: "ArtifactMultiMap \<Rightarrow> ref list" where
  "chain_values tfx_artifact_map = concat (map snd tfx_artifact_map)"

definition update_artifacts ::
  "Metadata \<Rightarrow> heap \<Rightarrow> ArtifactMultiMap \<Rightarrow> string option \<Rightarrow> (error + unit) \<times> heap \<times> Metadata" where
  "update_artifacts metadata_handle hp tfx_artifact_map new_artifact_state =
     (case update_loop new_artifact_state (chain_values tfx_artifact_map) hp [] of
        (Inl e, hp') \<Rightarrow> (Inl e, hp', metadata_handle)
      | (Inr to_update, hp') \<Rightarrow>
          (Inr (), hp',
           if to_update \<noteq> []
           then metadata_handle\<lparr>put_artifacts_calls :=
                  put_artifacts_calls metadata_handle @ [map (\<lambda>r. mlmd_artifact (hp' r)) to_update]\<rparr>
           else metadata_handle))"

subsection \<open>Example stores and heaps\<close>

text \<open>
  An in-memory store for the examples: it answers a read with the stored records whose
  identifier is requested, each once and in stored order, and with the type definitions
  those records refer to. It holds two artifacts, 1 of type A and 2 of type B.
\<close>

definition in_memory_fetch ::
  "MlmdArtifact list \<Rightarrow> ArtifactType list \<Rightarrow> int list \<Rightarrow> MlmdArtifact list \<times> ArtifactType list" where
  "in_memory_fetch stored stored_types ids =
     (let found = filter (\<lambda>a. case id_a a of None \<Rightarrow> False | Some i \<Rightarrow> i \<in> set ids) stored
      in (found, filter (\<lambda>t. id_t t \<in> type_id ` set found) stored_types))"

definition artifact_1 :: MlmdArtifact where
  "artifact_1 = \<lparr>id_a = Some 1, type_id = 10, type = [], state_value = ''LIVE'', properties = []\<rparr>"

definition artifact_2 :: MlmdArtifact where
  "artifact_2 = \<lparr>id_a = Some 2, type_id = 20, type = [], state_value = ''LIVE'',
                 properties = [(''span'', ''7'')]\<rparr>"

definition unsaved_artifact :: MlmdArtifact where
  "unsaved_artifact = \<lparr>id_a = None, type_id = 10, type = ''A'', state_value = ''PENDING'', properties = []\<rparr>"

definition type_A :: ArtifactType where
  "type_A = \<lparr>id_t = 10, name = ''A''\<rparr>"

definition type_B :: ArtifactType where
  "type_B = \<lparr>id_t = 20, name = ''B''\<rparr>"

definition example_store :: Metadata where
  "example_store =
     \<lparr>get_artifacts_and_types_by_artifact_ids = in_memory_fetch [artifact_1, artifact_2] [type_A, type_B],
      put_artifacts_calls = []\<rparr>"

text \<open>A store that breaks its contract: it returns a record of type 20 without that type.\<close>

definition inconsistent_store :: Metadata where
  "inconsistent_store =
     \<lparr>get_artifacts_and_types_by_artifact_ids = (\<lambda>ids. ([artifact_1, artifact_2], [type_A])),
      put_artifacts_calls = []\<rparr>"

text \<open>
  A heap with the two stored artifacts at references 10 and 20 and an artifact that was
  never persisted at every other reference.
\<close>

definition example_heap :: heap where
  "example_heap =
     (\<lambda>r. if r = 10 then \<lparr>mlmd_artifact = artifact_1, artifact_type = type_A\<rparr>
          else if r = 20 then \<lparr>mlmd_artifact = artifact_2, artifact_type = type_B\<rparr>
          else \<lparr>mlmd_artifact = unsaved_artifact, artifact_type = type_A\<rparr>)"

section \<open>Properties of get_artifacts_by_ids\<close>

subsection \<open>The type dictionary and the two loops\<close>

lemmas example_defs =
  example_store_def inconsistent_store_def in_memory_fetch_def artifact_1_def artifact_2_def
  unsaved_artifact_def type_A_def type_B_def example_heap_def

lemma dict_by_id_Some_gen:
  "dict_by_id ts d k = Some t \<Longrightarrow> (t \<in> set ts \<and> id_t t = k) \<or> d k = Some t"
proof (induction ts arbitrary: d)
  case Nil
  then show ?case by simp
next
  case (Cons a ts)
  from Cons.prems have "dict_by_id ts (d(id_t a \<mapsto> a)) k = Some t" by simp
  from Cons.IH [OF this] show ?case
    by (auto split: if_splits)
qed

lemma dict_by_id_None_gen:
  "dict_by_id ts d k = None \<longleftrightarrow> k \<notin> id_t ` set ts \<and> d k = None"
  by (induction ts arbitrary: d) auto

lemma dict_by_id_Some:
  "dict_by_id ts Map.empty k = Some t \<Longrightarrow> t \<in> set ts \<and> id_t t = k"
  using dict_by_id_Some_gen [of ts Map.empty k t] by simp

lemma dict_by_id_None:
  "dict_by_id ts Map.empty k = None \<longleftrightarrow> k \<notin> id_t ` set ts"
  by (simp add: dict_by_id_None_gen)

lemma dict_by_id_distinct:
  assumes "distinct (map id_t ts)" and "t \<in> set ts"
  shows "dict_by_id ts Map.empty (id_t t) = Some t"
proof -
  from assms(2) have "id_t t \<in> id_t ` set ts" by simp
  then obtain u where u: "dict_by_id ts Map.empty (id_t t) = Some u"
    using dict_by_id_None [of ts "id_t t"] by (cases "dict_by_id ts Map.empty (id_t t)") auto
  then have "u \<in> set ts" and "id_t u = id_t t"
    using dict_by_id_Some by blast+
  with assms have "u = t"
    by (meson distinct_map inj_onD)
  with u show ?thesis by simp
qed

lemma set_types_total:
  "\<forall>a \<in> set as. d (type_id a) \<noteq> None \<Longrightarrow>
     set_types d as = Inr (map (\<lambda>a. a\<lparr>type := name (the (d (type_id a)))\<rparr>) as)"
  by (induction as) auto

lemma set_types_dom:
  "set_types d as = Inr bs \<Longrightarrow> \<forall>a \<in> set as. d (type_id a) \<noteq> None"
  by (induction as arbitrary: bs) (auto split: option.splits sum.splits)

lemma set_types_Inr:
  "set_types d as = Inr bs \<longleftrightarrow>
     (\<forall>a \<in> set as. d (type_id a) \<noteq> None) \<and>
     bs = map (\<lambda>a. a\<lparr>type := name (the (d (type_id a)))\<rparr>) as"
  using set_types_total [of as d] set_types_dom [of d as bs] by auto

lemma set_types_Inl:
  assumes "as = pre @ a # post" and "\<forall>b \<in> set pre. d (type_id b) \<noteq> None" and "d (type_id a) = None"
  shows "set_types d as = Inl (KeyError (type_id a))"
  using assms by (induction pre arbitrary: as) (auto split: option.splits sum.splits)

lemma deserialize_all_total:
  "\<forall>a \<in> set as. d (type_id a) \<noteq> None \<Longrightarrow>
     deserialize_all d as = Inr (map (\<lambda>a. deserialize_artifact (the (d (type_id a))) a) as)"
  by (induction as) auto

lemma deserialize_all_dom:
  "deserialize_all d as = Inr xs \<Longrightarrow> \<forall>a \<in> set as. d (type_id a) \<noteq> None"
  by (induction as arbitrary: xs) (auto split: option.splits sum.splits)

lemma deserialize_all_Inr:
  "deserialize_all d as = Inr xs \<longleftrightarrow>
     (\<forall>a \<in> set as. d (type_id a) \<noteq> None) \<and>
     xs = map (\<lambda>a. deserialize_artifact (the (d (type_id a))) a) as"
  using deserialize_all_total [of as d] deserialize_all_dom [of d as xs] by auto

lemma get_artifacts_by_ids_Inr:
  assumes "get_artifacts_and_types_by_artifact_ids h ids = (arts, ts)"
  shows "get_artifacts_by_ids h ids = Inr xs \<longleftrightarrow>
     length ids = length arts \<and>
     (\<forall>a \<in> set arts. type_id a \<in> id_t ` set ts) \<and>
     xs = map (\<lambda>a. deserialize_artifact (the (dict_by_id ts Map.empty (type_id a)))
                 (a\<lparr>type := name (the (dict_by_id ts Map.empty (type_id a)))\<rparr>)) arts"
proof -
  let ?d = "dict_by_id ts Map.empty"
  let ?f = "\<lambda>a. a\<lparr>type := name (the (?d (type_id a)))\<rparr>"
  have cover: "(\<forall>a \<in> set arts. ?d (type_id a) \<noteq> None) \<longleftrightarrow> (\<forall>a \<in> set arts. type_id a \<in> id_t ` set ts)"
    using dict_by_id_None [of ts] by blast
  show ?thesis
  proof (cases "length ids = length arts")
    case False
    with assms show ?thesis by (simp add: get_artifacts_by_ids_def Let_def)
  next
    case len: True
    show ?thesis
    proof (cases "\<forall>a \<in> set arts. ?d (type_id a) \<noteq> None")
      case True
      then have st: "set_types ?d arts = Inr (map ?f arts)"
        by (simp add: set_types_Inr)
      have "deserialize_all ?d (map ?f arts) = Inr xs \<longleftrightarrow>
              xs = map (\<lambda>a. deserialize_artifact (the (?d (type_id a))) a) (map ?f arts)"
        using True by (simp add: deserialize_all_Inr)
      with assms len st True cover show ?thesis
        by (simp add: get_artifacts_by_ids_def Let_def o_def)
    next
      case False
      then have "\<And>bs. set_types ?d arts \<noteq> Inr bs"
        by (simp add: set_types_Inr)
      then obtain e where "set_types ?d arts = Inl e"
        by (cases "set_types ?d arts") auto
      moreover from False cover have "\<not> (\<forall>a \<in> set arts. type_id a \<in> id_t ` set ts)"
        by blast
      ultimately show ?thesis
        using assms len by (simp add: get_artifacts_by_ids_def Let_def)
    qed
  qed
qed

subsection \<open>The claims on reading\<close>

text \<open>
  Reading pairwise different identifiers. Let the store answer a request with exactly one
  record for each requested identifier and with the type definition of every record it
  returns. If the requested identifiers are pairwise different, \<open>get_artifacts_by_ids\<close>
  returns as many typed artifacts as identifiers were requested, and the multiset of
  their identifiers is the multiset of the requested ones.
\<close>

lemma get_artifacts_by_ids_distinct_ids:
  assumes fetch: "get_artifacts_and_types_by_artifact_ids metadata_handle artifact_ids = (mlmd_artifacts, artifact_types)"
    and ids: "distinct artifact_ids"
    and one_each: "distinct (map id_a mlmd_artifacts)"
    and found: "set (map id_a mlmd_artifacts) = Some ` set artifact_ids"
    and types: "\<forall>a \<in> set mlmd_artifacts. type_id a \<in> id_t ` set artifact_types"
  shows "\<exists>xs. get_artifacts_by_ids metadata_handle artifact_ids = Inr xs
           \<and> length xs = length artifact_ids
           \<and> mset (map (\<lambda>x. id_a (mlmd_artifact x)) xs) = mset (map Some artifact_ids)"
proof -
  let ?d = "dict_by_id artifact_types Map.empty"
  let ?xs = "map (\<lambda>a. deserialize_artifact (the (?d (type_id a)))
                 (a\<lparr>type := name (the (?d (type_id a)))\<rparr>)) mlmd_artifacts"
  have "length mlmd_artifacts = card (set (map id_a mlmd_artifacts))"
    using one_each distinct_card by fastforce
  also have "\<dots> = card (Some ` set artifact_ids)"
    by (simp only: found)
  also have "\<dots> = card (set artifact_ids)"
    by (simp add: card_image)
  also have "\<dots> = length artifact_ids"
    using ids by (simp add: distinct_card)
  finally have len: "length artifact_ids = length mlmd_artifacts"
    by simp
  with fetch types have res: "get_artifacts_by_ids metadata_handle artifact_ids = Inr ?xs"
    by (simp add: get_artifacts_by_ids_Inr)
  have ids_kept: "map (\<lambda>x. id_a (mlmd_artifact x)) ?xs = map id_a mlmd_artifacts"
    by (simp add: deserialize_artifact_def o_def)
  have "distinct (map Some artifact_ids)"
    using ids by (simp add: distinct_map)
  moreover have "set (map id_a mlmd_artifacts) = set (map Some artifact_ids)"
    using found by simp
  ultimately have "mset (map id_a mlmd_artifacts) = mset (map Some artifact_ids)"
    using one_each set_eq_iff_mset_eq_distinct by blast
  with ids_kept have same: "mset (map (\<lambda>x. id_a (mlmd_artifact x)) ?xs) = mset (map Some artifact_ids)"
    by (simp only:)
  have "length ?xs = length artifact_ids"
    using len by simp
  with res same show ?thesis
    by blast
qed

text \<open>The example store asked for 2 and 1, in this order.\<close>

lemma get_artifacts_by_ids_distinct_ids_example:
  "get_artifacts_and_types_by_artifact_ids example_store [2, 1] = ([artifact_1, artifact_2], [type_A, type_B])
   \<and> distinct [2, 1 :: int]
   \<and> distinct (map id_a [artifact_1, artifact_2])
   \<and> set (map id_a [artifact_1, artifact_2]) = Some ` set [2, 1]
   \<and> type_id artifact_1 \<in> id_t ` set [type_A, type_B]
   \<and> type_id artifact_2 \<in> id_t ` set [type_A, type_B]
   \<and> (\<exists>xs. get_artifacts_by_ids example_store [2, 1] = Inr xs
          \<and> length xs = length [2, 1 :: int]
          \<and> mset (map (\<lambda>x. id_a (mlmd_artifact x)) xs) = mset (map Some [2, 1]))"
proof -
  have h1: "get_artifacts_and_types_by_artifact_ids example_store [2, 1] = ([artifact_1, artifact_2], [type_A, type_B])"
    by (simp add: example_defs)
  have h2: "distinct [2, 1 :: int]"
    by simp
  have h3: "distinct (map id_a [artifact_1, artifact_2])"
    by (simp add: example_defs)
  have h4: "set (map id_a [artifact_1, artifact_2]) = Some ` set [2, 1]"
    by (auto simp: example_defs)
  have h5: "\<forall>a \<in> set [artifact_1, artifact_2]. type_id a \<in> id_t ` set [type_A, type_B]"
    by (simp add: example_defs)
  have h6: "type_id artifact_1 \<in> id_t ` set [type_A, type_B]"
    and h7: "type_id artifact_2 \<in> id_t ` set [type_A, type_B]"
    using h5 by simp_all
  from get_artifacts_by_ids_distinct_ids [OF h1 h2 h3 h4 h5] h1 h2 h3 h4 h6 h7
  show ?thesis by blast
qed

text \<open>
  Reading a sequence with a duplicate. A store that answers with one record for each
  distinct requested identifier returns fewer records than the sequence is long, so the
  comparison of the two lengths fails and the call ends with the \<open>ValueError\<close> that
  reports missing artifacts, although none is missing.
\<close>

lemma get_artifacts_by_ids_not_distinct:
  assumes fetch: "get_artifacts_and_types_by_artifact_ids metadata_handle artifact_ids = (mlmd_artifacts, artifact_types)"
    and dup: "\<not> distinct artifact_ids"
    and one_each: "distinct (map id_a mlmd_artifacts)"
    and found: "set (map id_a mlmd_artifacts) = Some ` set artifact_ids"
  shows "get_artifacts_by_ids metadata_handle artifact_ids
           = Inl (ValueError (''Could not find all MLMD artifacts for ids: '' @ str_int_list artifact_ids))"
proof -
  have "length mlmd_artifacts = card (set (map id_a mlmd_artifacts))"
    using one_each distinct_card by fastforce
  also have "\<dots> = card (Some ` set artifact_ids)"
    by (simp only: found)
  also have "\<dots> = card (set artifact_ids)"
    by (simp add: card_image)
  finally have len: "length mlmd_artifacts = card (set artifact_ids)" .
  have "card (set artifact_ids) \<noteq> length artifact_ids"
    using dup card_distinct by blast
  with len have "length artifact_ids \<noteq> length mlmd_artifacts"
    by simp
  with fetch show ?thesis
    by (simp add: get_artifacts_by_ids_def)
qed

text \<open>
  Claim C1. The claim asks for as many typed artifacts as identifiers, with the same
  multiset of identifiers, also when the sequence has duplicates. The code does not
  deliver this: asked for 1 and 1, the example store, which holds artifact 1, returns the
  one record of identifier 1 and its type; line 48 compares two identifiers with one
  record, and the call ends with the \<open>ValueError\<close> for artifacts that could not be
  found, instead of two artifacts of identifier 1. The docstring has this error only for
  identifiers that do not exist in the store.
\<close>

theorem get_artifacts_by_ids_duplicate_ids:
  "get_artifacts_and_types_by_artifact_ids example_store [1, 1] = ([artifact_1], [type_A])
   \<and> distinct (map id_a [artifact_1])
   \<and> set (map id_a [artifact_1]) = Some ` set [1, 1]
   \<and> type_id artifact_1 = id_t type_A
   \<and> get_artifacts_by_ids example_store [1, 1]
       = Inl (ValueError ''Could not find all MLMD artifacts for ids: [1, 1]'')"
  by (simp add: get_artifacts_by_ids_def example_defs str_int_list_def str_int_def digit_char_def)

text \<open>
  Claim C2. When the store returns fewer records than identifiers were requested,
  \<open>get_artifacts_by_ids\<close> ends with the \<open>ValueError\<close> of the module, whose message is
  the fixed text followed by the whole requested identifier list; the result is the error
  alone, no artifact is returned.
\<close>

theorem get_artifacts_by_ids_missing:
  assumes "get_artifacts_and_types_by_artifact_ids metadata_handle artifact_ids = (mlmd_artifacts, artifact_types)"
    and "length mlmd_artifacts < length artifact_ids"
  shows "get_artifacts_by_ids metadata_handle artifact_ids
           = Inl (ValueError (''Could not find all MLMD artifacts for ids: '' @ str_int_list artifact_ids))"
  using assms by (simp add: get_artifacts_by_ids_def)

text \<open>The example store asked for 1, 2 and 3, of which 3 is absent.\<close>

theorem get_artifacts_by_ids_missing_witness:
  "get_artifacts_and_types_by_artifact_ids example_store [1, 2, 3] = ([artifact_1, artifact_2], [type_A, type_B])
   \<and> length [artifact_1, artifact_2] < length [1, 2, 3 :: int]
   \<and> get_artifacts_by_ids example_store [1, 2, 3]
       = Inl (ValueError ''Could not find all MLMD artifacts for ids: [1, 2, 3]'')"
proof -
  have h1: "get_artifacts_and_types_by_artifact_ids example_store [1, 2, 3] = ([artifact_1, artifact_2], [type_A, type_B])"
    by (simp add: example_defs)
  have h2: "length [artifact_1, artifact_2] < length [1, 2, 3 :: int]"
    by simp
  from get_artifacts_by_ids_missing [OF h1 h2] h1 h2 show ?thesis
    by (simp add: str_int_list_def str_int_def digit_char_def)
qed

text \<open>
  Claim C4. Every typed artifact that \<open>get_artifacts_by_ids\<close> returns has, in the
  \<open>type\<close> field of its record and as its own type definition, a type definition of the
  returned batch whose identifier is the record's type identifier; when the identifiers of
  the returned type definitions are pairwise different, this is the name of every (hence the
  only) type definition with that identifier. Nothing is assumed on the number of types.
\<close>

theorem get_artifacts_by_ids_type_names:
  assumes fetch: "get_artifacts_and_types_by_artifact_ids metadata_handle artifact_ids = (mlmd_artifacts, artifact_types)"
    and res: "get_artifacts_by_ids metadata_handle artifact_ids = Inr xs"
    and x: "x \<in> set xs"
  shows "(\<exists>t \<in> set artifact_types. id_t t = type_id (mlmd_artifact x)
            \<and> type (mlmd_artifact x) = name t \<and> artifact_type x = t)
       \<and> (distinct (map id_t artifact_types) \<longrightarrow>
            (\<forall>t \<in> set artifact_types. id_t t = type_id (mlmd_artifact x)
               \<longrightarrow> type (mlmd_artifact x) = name t \<and> artifact_type x = t))"
proof -
  let ?d = "dict_by_id artifact_types Map.empty"
  from res fetch have cover: "\<forall>a \<in> set mlmd_artifacts. type_id a \<in> id_t ` set artifact_types"
    and xs: "xs = map (\<lambda>a. deserialize_artifact (the (?d (type_id a)))
                 (a\<lparr>type := name (the (?d (type_id a)))\<rparr>)) mlmd_artifacts"
    by (simp_all add: get_artifacts_by_ids_Inr)
  from x xs obtain a where a: "a \<in> set mlmd_artifacts"
    and xa: "x = deserialize_artifact (the (?d (type_id a))) (a\<lparr>type := name (the (?d (type_id a)))\<rparr>)"
    by auto
  from a cover have "?d (type_id a) \<noteq> None"
    by (simp add: dict_by_id_None)
  then obtain u where u: "?d (type_id a) = Some u"
    by auto
  then have u_in: "u \<in> set artifact_types" and u_id: "id_t u = type_id a"
    using dict_by_id_Some by blast+
  from xa u have fields: "type_id (mlmd_artifact x) = type_id a" "type (mlmd_artifact x) = name u"
    "artifact_type x = u"
    by (simp_all add: deserialize_artifact_def)
  have first: "\<exists>t \<in> set artifact_types. id_t t = type_id (mlmd_artifact x)
            \<and> type (mlmd_artifact x) = name t \<and> artifact_type x = t"
    using u_in u_id fields by (intro bexI [of _ u]) simp_all
  have second: "\<forall>t \<in> set artifact_types. id_t t = type_id (mlmd_artifact x)
               \<longrightarrow> type (mlmd_artifact x) = name t \<and> artifact_type x = t"
    if d: "distinct (map id_t artifact_types)"
  proof (intro ballI impI)
    fix t assume t: "t \<in> set artifact_types" and tid: "id_t t = type_id (mlmd_artifact x)"
    from dict_by_id_distinct [OF d t] tid fields(1) u have "u = t"
      by simp
    with fields show "type (mlmd_artifact x) = name t \<and> artifact_type x = t"
      by simp
  qed
  from first second show ?thesis
    by blast
qed

text \<open>A batch with two types: artifact 1 is resolved to A and artifact 2 to B.\<close>

theorem get_artifacts_by_ids_type_names_witness:
  "get_artifacts_and_types_by_artifact_ids example_store [1, 2] = ([artifact_1, artifact_2], [type_A, type_B])
   \<and> get_artifacts_by_ids example_store [1, 2]
       = Inr [\<lparr>mlmd_artifact = artifact_1\<lparr>type := ''A''\<rparr>, artifact_type = type_A\<rparr>,
              \<lparr>mlmd_artifact = artifact_2\<lparr>type := ''B''\<rparr>, artifact_type = type_B\<rparr>]
   \<and> distinct (map id_t [type_A, type_B])
   \<and> type_B \<in> set [type_A, type_B]
   \<and> id_t type_B = type_id (mlmd_artifact \<lparr>mlmd_artifact = artifact_2\<lparr>type := ''B''\<rparr>, artifact_type = type_B\<rparr>)
   \<and> type (mlmd_artifact \<lparr>mlmd_artifact = artifact_2\<lparr>type := ''B''\<rparr>, artifact_type = type_B\<rparr>) = name type_B
   \<and> artifact_type \<lparr>mlmd_artifact = artifact_2\<lparr>type := ''B''\<rparr>, artifact_type = type_B\<rparr> = type_B"
proof -
  let ?x1 = "\<lparr>mlmd_artifact = artifact_1\<lparr>type := ''A''\<rparr>, artifact_type = type_A\<rparr>"
  let ?x2 = "\<lparr>mlmd_artifact = artifact_2\<lparr>type := ''B''\<rparr>, artifact_type = type_B\<rparr>"
  have h1: "get_artifacts_and_types_by_artifact_ids example_store [1, 2] = ([artifact_1, artifact_2], [type_A, type_B])"
    by (simp add: example_defs)
  have h2: "get_artifacts_by_ids example_store [1, 2] = Inr [?x1, ?x2]"
    by (simp add: get_artifacts_by_ids_def deserialize_artifact_def example_defs)
  have h3: "?x2 \<in> set [?x1, ?x2]"
    by simp
  have h4: "distinct (map id_t [type_A, type_B])"
    by (simp add: example_defs)
  have h5: "type_B \<in> set [type_A, type_B]"
    by simp
  have h6: "id_t type_B = type_id (mlmd_artifact ?x2)"
    by (simp add: example_defs)
  from get_artifacts_by_ids_type_names [OF h1 h2 h3] h4 h5 h6
  have "type (mlmd_artifact ?x2) = name type_B \<and> artifact_type ?x2 = type_B"
    by blast
  with h1 h2 h4 h5 h6 show ?thesis
    by blast
qed

text \<open>
  Claim C8. If the store returns the type definition of every record it returns, the call
  never ends with a \<open>KeyError\<close>, and it returns a result when the counts agree. If the
  counts agree and some record's type identifier is missing from the returned types,
  the call ends with the \<open>KeyError\<close> of the first such record: the lookup failure
  reaches the caller as it is, not as the \<open>ValueError\<close> of a missing artifact.
\<close>

theorem get_artifacts_by_ids_type_lookup:
  assumes fetch: "get_artifacts_and_types_by_artifact_ids metadata_handle artifact_ids = (mlmd_artifacts, artifact_types)"
  shows "((\<forall>a \<in> set mlmd_artifacts. type_id a \<in> id_t ` set artifact_types) \<longrightarrow>
            (\<forall>k. get_artifacts_by_ids metadata_handle artifact_ids \<noteq> Inl (KeyError k))
          \<and> (length artifact_ids = length mlmd_artifacts \<longrightarrow>
               (\<exists>xs. get_artifacts_by_ids metadata_handle artifact_ids = Inr xs)))
       \<and> (\<forall>pre a post.
            length artifact_ids = length mlmd_artifacts
            \<and> mlmd_artifacts = pre @ a # post
            \<and> (\<forall>b \<in> set pre. type_id b \<in> id_t ` set artifact_types)
            \<and> type_id a \<notin> id_t ` set artifact_types
            \<longrightarrow> get_artifacts_by_ids metadata_handle artifact_ids = Inl (KeyError (type_id a)))"
proof (intro conjI impI allI)
  assume cover: "\<forall>a \<in> set mlmd_artifacts. type_id a \<in> id_t ` set artifact_types"
  show "\<exists>xs. get_artifacts_by_ids metadata_handle artifact_ids = Inr xs"
    if "length artifact_ids = length mlmd_artifacts"
    using that cover fetch by (simp add: get_artifacts_by_ids_Inr)
  fix k
  show "get_artifacts_by_ids metadata_handle artifact_ids \<noteq> Inl (KeyError k)"
  proof (cases "length artifact_ids = length mlmd_artifacts")
    case True
    with cover fetch have "\<exists>xs. get_artifacts_by_ids metadata_handle artifact_ids = Inr xs"
      by (simp add: get_artifacts_by_ids_Inr)
    then show ?thesis by auto
  next
    case False
    with fetch show ?thesis by (simp add: get_artifacts_by_ids_def)
  qed
next
  fix pre a post
  assume h: "length artifact_ids = length mlmd_artifacts
            \<and> mlmd_artifacts = pre @ a # post
            \<and> (\<forall>b \<in> set pre. type_id b \<in> id_t ` set artifact_types)
            \<and> type_id a \<notin> id_t ` set artifact_types"
  let ?d = "dict_by_id artifact_types Map.empty"
  from h have "\<forall>b \<in> set pre. ?d (type_id b) \<noteq> None" and "?d (type_id a) = None"
    by (simp_all add: dict_by_id_None)
  with h have "set_types ?d mlmd_artifacts = Inl (KeyError (type_id a))"
    using set_types_Inl by blast
  with h fetch show "get_artifacts_by_ids metadata_handle artifact_ids = Inl (KeyError (type_id a))"
    by (simp add: get_artifacts_by_ids_def Let_def)
qed

text \<open>Both parts of C8: the example store, and a store that omits type B.\<close>

theorem get_artifacts_by_ids_type_lookup_witness:
  "get_artifacts_and_types_by_artifact_ids example_store [1, 2] = ([artifact_1, artifact_2], [type_A, type_B])
   \<and> type_id artifact_1 \<in> id_t ` set [type_A, type_B]
   \<and> type_id artifact_2 \<in> id_t ` set [type_A, type_B]
   \<and> length [1, 2 :: int] = length [artifact_1, artifact_2]
   \<and> (\<exists>xs. get_artifacts_by_ids example_store [1, 2] = Inr xs)
   \<and> get_artifacts_and_types_by_artifact_ids inconsistent_store [1, 2] = ([artifact_1, artifact_2], [type_A])
   \<and> [artifact_1, artifact_2] = [artifact_1] @ artifact_2 # []
   \<and> type_id artifact_1 \<in> id_t ` set [type_A]
   \<and> type_id artifact_2 \<notin> id_t ` set [type_A]
   \<and> get_artifacts_by_ids inconsistent_store [1, 2] = Inl (KeyError 20)"
proof -
  have g1: "get_artifacts_and_types_by_artifact_ids example_store [1, 2] = ([artifact_1, artifact_2], [type_A, type_B])"
    by (simp add: example_defs)
  have g2: "\<forall>a \<in> set [artifact_1, artifact_2]. type_id a \<in> id_t ` set [type_A, type_B]"
    by (simp add: example_defs)
  have g3: "length [1, 2 :: int] = length [artifact_1, artifact_2]"
    by simp
  from get_artifacts_by_ids_type_lookup [OF g1] g2 g3
  have g4: "\<exists>xs. get_artifacts_by_ids example_store [1, 2] = Inr xs"
    by blast
  have b1: "get_artifacts_and_types_by_artifact_ids inconsistent_store [1, 2] = ([artifact_1, artifact_2], [type_A])"
    by (simp add: example_defs)
  have b2: "[artifact_1, artifact_2] = [artifact_1] @ artifact_2 # []"
    by simp
  have b3: "\<forall>b \<in> set [artifact_1]. type_id b \<in> id_t ` set [type_A]"
    by (simp add: example_defs)
  have b4: "type_id artifact_2 \<notin> id_t ` set [type_A]"
    by (simp add: example_defs)
  from get_artifacts_by_ids_type_lookup [OF b1] g3 b2 b3 b4
  have "get_artifacts_by_ids inconsistent_store [1, 2] = Inl (KeyError (type_id artifact_2))"
    by blast
  then have b5: "get_artifacts_by_ids inconsistent_store [1, 2] = Inl (KeyError 20)"
    by (simp add: artifact_2_def)
  have g5: "type_id artifact_1 \<in> id_t ` set [type_A, type_B]"
    and g6: "type_id artifact_2 \<in> id_t ` set [type_A, type_B]"
    using g2 by simp_all
  have b6: "type_id artifact_1 \<in> id_t ` set [type_A]"
    using b3 by simp
  from g1 g5 g6 g3 g4 b1 b2 b6 b4 b5 show ?thesis
    by blast
qed

section \<open>Properties of update_artifacts\<close>

subsection \<open>The state assignment and the loop\<close>

lemma assign_state_id [simp]:
  "id_a (mlmd_artifact (assign_state ns x)) = id_a (mlmd_artifact x)"
  by (simp add: assign_state_def set_state_def split: option.splits)

lemma assign_state_idem [simp]:
  "assign_state ns (assign_state ns x) = assign_state ns x"
  by (simp add: assign_state_def set_state_def split: option.splits)

lemma update_loop_ok:
  "\<forall>r \<in> set rs. id_a (mlmd_artifact (hp r)) \<noteq> None \<Longrightarrow>
     update_loop ns rs hp acc
       = (Inr (acc @ rs), \<lambda>q. if q \<in> set rs then assign_state ns (hp q) else hp q)"
proof (induction rs arbitrary: hp acc)
  case Nil
  show ?case by simp
next
  case (Cons r rs)
  let ?hp = "hp(r := assign_state ns (hp r))"
  from Cons.prems have "\<forall>q \<in> set rs. id_a (mlmd_artifact (?hp q)) \<noteq> None"
    by simp
  from Cons.IH [OF this, of "acc @ [r]"]
  have step: "update_loop ns rs ?hp (acc @ [r])
       = (Inr (acc @ r # rs), \<lambda>q. if q \<in> set rs then assign_state ns (?hp q) else ?hp q)"
    by (simp only: append_assoc append_Cons append_Nil)
  have heap: "(\<lambda>q. if q \<in> set rs then assign_state ns (?hp q) else ?hp q)
       = (\<lambda>q. if q \<in> set (r # rs) then assign_state ns (hp q) else hp q)"
    by (auto simp: fun_eq_iff)
  from Cons.prems have "id_a (mlmd_artifact (hp r)) \<noteq> None"
    by simp
  with step heap show ?case
    by (simp only: update_loop.simps if_False)
qed

lemma update_loop_fail:
  "rs = pre @ r # post \<Longrightarrow> \<forall>q \<in> set pre. id_a (mlmd_artifact (hp q)) \<noteq> None \<Longrightarrow>
   id_a (mlmd_artifact (hp r)) = None \<Longrightarrow>
     update_loop ns rs hp acc
       = (Inl (ValueError ''Artifact must have an MLMD ID in order to be updated.''),
          \<lambda>q. if q \<in> set pre then assign_state ns (hp q) else hp q)"
proof (induction pre arbitrary: rs hp acc)
  case Nil
  then show ?case by simp
next
  case (Cons p pre)
  let ?hp = "hp(p := assign_state ns (hp p))"
  have 1: "pre @ r # post = pre @ r # post" by simp
  from Cons.prems have 2: "\<forall>q \<in> set pre. id_a (mlmd_artifact (?hp q)) \<noteq> None"
    by simp
  from Cons.prems have 3: "id_a (mlmd_artifact (?hp r)) = None"
    by auto
  have step: "update_loop ns (pre @ r # post) ?hp (acc @ [p])
       = (Inl (ValueError ''Artifact must have an MLMD ID in order to be updated.''),
          \<lambda>q. if q \<in> set pre then assign_state ns (?hp q) else ?hp q)"
    by (rule Cons.IH [OF 1 2 3])
  have heap: "(\<lambda>q. if q \<in> set pre then assign_state ns (?hp q) else ?hp q)
       = (\<lambda>q. if q \<in> set (p # pre) then assign_state ns (hp q) else hp q)"
    by (auto simp: fun_eq_iff)
  from Cons.prems have "id_a (mlmd_artifact (hp p)) \<noteq> None" and "rs = p # (pre @ r # post)"
    by simp_all
  with step heap show ?case
    by (simp only: update_loop.simps if_False)
qed

lemma first_without_id:
  assumes "\<exists>r \<in> set rs. id_a (mlmd_artifact (hp r)) = None"
  shows "\<exists>pre r post. rs = pre @ r # post \<and> (\<forall>q \<in> set pre. id_a (mlmd_artifact (hp q)) \<noteq> None)
           \<and> id_a (mlmd_artifact (hp r)) = None"
  using split_list_first_prop [OF assms] by blast

lemma update_artifacts_ok:
  assumes "\<forall>r \<in> set (chain_values m). id_a (mlmd_artifact (hp r)) \<noteq> None"
  shows "update_artifacts h hp m ns
     = (Inr (),
        (\<lambda>q. if q \<in> set (chain_values m) then assign_state ns (hp q) else hp q),
        if chain_values m \<noteq> []
        then h\<lparr>put_artifacts_calls := put_artifacts_calls h
                 @ [map (\<lambda>r. mlmd_artifact (assign_state ns (hp r))) (chain_values m)]\<rparr>
        else h)"
  using update_loop_ok [OF assms, of ns "[]"]
  by (simp add: update_artifacts_def cong: map_cong)

lemma update_artifacts_fail:
  assumes "chain_values m = pre @ r # post"
    and "\<forall>q \<in> set pre. id_a (mlmd_artifact (hp q)) \<noteq> None"
    and "id_a (mlmd_artifact (hp r)) = None"
  shows "update_artifacts h hp m ns
     = (Inl (ValueError ''Artifact must have an MLMD ID in order to be updated.''),
        (\<lambda>q. if q \<in> set pre then assign_state ns (hp q) else hp q), h)"
  using update_loop_fail [OF assms, of ns "[]"]
  by (simp add: update_artifacts_def)

lemma assign_state_frame:
  "assign_state ns x = set_state (state (assign_state ns x)) x"
  by (simp add: assign_state_def set_state_def state_def split: option.splits)

lemma assign_state_falsy [simp]:
  "assign_state None x = x" "assign_state (Some []) x = x"
  by (simp_all add: assign_state_def)

lemma assign_state_truthy:
  "s \<noteq> [] \<Longrightarrow> assign_state (Some s) x = set_state s x"
  by (simp add: assign_state_def)

lemma state_set_state [simp]: "state (set_state s x) = s"
  by (simp add: state_def set_state_def)

lemmas eval_defs =
  update_artifacts_def chain_values_def assign_state_def set_state_def state_def

lemma set_state_same [simp]: "set_state (state x) x = x"
  by (simp add: set_state_def state_def)

lemma mlmd_artifact_assign_state:
  "mlmd_artifact (assign_state ns x) = (mlmd_artifact x)\<lparr>state_value := state (assign_state ns x)\<rparr>"
  by (simp add: assign_state_def set_state_def state_def split: option.splits)

lemma set_state_fields [simp]:
  "id_a (mlmd_artifact (set_state s x)) = id_a (mlmd_artifact x)"
  "type_id (mlmd_artifact (set_state s x)) = type_id (mlmd_artifact x)"
  "type (mlmd_artifact (set_state s x)) = type (mlmd_artifact x)"
  "properties (mlmd_artifact (set_state s x)) = properties (mlmd_artifact x)"
  "artifact_type (set_state s x) = artifact_type x"
  by (simp_all add: set_state_def)

lemma assigned_heap_frame:
  assumes "hp' = (\<lambda>q. if q \<in> S then assign_state ns (hp q) else hp q)"
  shows "\<forall>q. hp' q = set_state (state (hp' q)) (hp q)"
    and "\<forall>q. q \<notin> S \<longrightarrow> hp' q = hp q"
    and "ns = None \<or> ns = Some [] \<longrightarrow> hp' = hp"
proof -
  show "\<forall>q. hp' q = set_state (state (hp' q)) (hp q)"
  proof
    fix q
    show "hp' q = set_state (state (hp' q)) (hp q)"
    proof (cases "q \<in> S")
      case True
      then have "hp' q = assign_state ns (hp q)"
        by (simp add: assms)
      then show ?thesis
        by (simp only: assign_state_frame [symmetric])
    next
      case False
      then have "hp' q = hp q"
        by (simp add: assms)
      then show ?thesis
        by (simp only: set_state_same)
    qed
  qed
  show "\<forall>q. q \<notin> S \<longrightarrow> hp' q = hp q"
    by (simp add: assms)
  show "ns = None \<or> ns = Some [] \<longrightarrow> hp' = hp"
    by (auto simp: assms fun_eq_iff)
qed

subsection \<open>The claims on updating\<close>

text \<open>
  Claim C3. If some artifact of the multi-map has no identifier in its record,
  \<open>update_artifacts\<close> ends with the \<open>ValueError\<close> of the module (its exception for an
  invalid argument), and the handle it leaves is the handle it was given: the log of
  \<open>put_artifacts\<close> calls has not grown, the store was not written.
\<close>

theorem update_artifacts_without_id:
  assumes "\<exists>r \<in> set (chain_values tfx_artifact_map). id_a (mlmd_artifact (hp r)) = None"
  shows "fst (update_artifacts metadata_handle hp tfx_artifact_map new_artifact_state)
           = Inl (ValueError ''Artifact must have an MLMD ID in order to be updated.'')
       \<and> snd (snd (update_artifacts metadata_handle hp tfx_artifact_map new_artifact_state))
           = metadata_handle"
proof -
  from first_without_id [OF assms] obtain pre r post
    where "chain_values tfx_artifact_map = pre @ r # post"
      and "\<forall>q \<in> set pre. id_a (mlmd_artifact (hp q)) \<noteq> None"
      and "id_a (mlmd_artifact (hp r)) = None"
    by blast
  from update_artifacts_fail [OF this] show ?thesis
    by simp
qed

text \<open>A multi-map with the never persisted artifact at reference 30 between two stored ones.\<close>

theorem update_artifacts_without_id_witness:
  "30 \<in> set (chain_values [(''examples'', [10, 30]), (''model'', [20])])
   \<and> id_a (mlmd_artifact (example_heap 30)) = None
   \<and> fst (update_artifacts example_store example_heap [(''examples'', [10, 30]), (''model'', [20])] (Some ''PUBLISHED''))
       = Inl (ValueError ''Artifact must have an MLMD ID in order to be updated.'')
   \<and> put_artifacts_calls (snd (snd (update_artifacts example_store example_heap
         [(''examples'', [10, 30]), (''model'', [20])] (Some ''PUBLISHED'')))) = []"
proof -
  have h1: "30 \<in> set (chain_values [(''examples'', [10, 30]), (''model'', [20])])"
    by (simp add: chain_values_def)
  have h2: "id_a (mlmd_artifact (example_heap 30)) = None"
    by (simp add: example_defs)
  from h1 h2 have "\<exists>r \<in> set (chain_values [(''examples'', [10, 30]), (''model'', [20])]).
      id_a (mlmd_artifact (example_heap r)) = None"
    by blast
  from update_artifacts_without_id [OF this, of example_store "Some ''PUBLISHED''"] h1 h2
  show ?thesis
    by (simp add: example_store_def)
qed

text \<open>
  Claim C5. If every artifact of the multi-map has an identifier and the new state is a
  non-empty string, \<open>update_artifacts\<close> returns normally, every artifact of the multi-map
  has the new state afterwards, and the store is called once with the records of the
  artifacts of the flattened multi-map, one for each of its K entries and in its order:
  the records the caller gave, with the new state. For K = 0 there is nothing to send and
  no call is made.
\<close>

theorem update_artifacts_new_state:
  assumes ids: "\<forall>r \<in> set (chain_values tfx_artifact_map). id_a (mlmd_artifact (hp r)) \<noteq> None"
    and s: "s \<noteq> []"
  shows "\<exists>hp' metadata_handle'.
           update_artifacts metadata_handle hp tfx_artifact_map (Some s) = (Inr (), hp', metadata_handle')
         \<and> (\<forall>r \<in> set (chain_values tfx_artifact_map). state (hp' r) = s)
         \<and> put_artifacts_calls metadata_handle'
             = put_artifacts_calls metadata_handle
               @ (if chain_values tfx_artifact_map = [] then []
                  else [map (\<lambda>r. mlmd_artifact (hp' r)) (chain_values tfx_artifact_map)])
         \<and> map (\<lambda>r. mlmd_artifact (hp' r)) (chain_values tfx_artifact_map)
             = map (\<lambda>r. (mlmd_artifact (hp r))\<lparr>state_value := s\<rparr>) (chain_values tfx_artifact_map)"
proof -
  let ?rs = "chain_values tfx_artifact_map"
  let ?hp = "\<lambda>q. if q \<in> set ?rs then assign_state (Some s) (hp q) else hp q"
  let ?h = "if ?rs \<noteq> []
        then metadata_handle\<lparr>put_artifacts_calls := put_artifacts_calls metadata_handle
                 @ [map (\<lambda>r. mlmd_artifact (assign_state (Some s) (hp r))) ?rs]\<rparr>
        else metadata_handle"
  have res: "update_artifacts metadata_handle hp tfx_artifact_map (Some s) = (Inr (), ?hp, ?h)"
    by (rule update_artifacts_ok [OF ids])
  have st: "\<forall>r \<in> set ?rs. state (?hp r) = s"
    using s by (simp add: assign_state_truthy)
  have recs: "map (\<lambda>r. mlmd_artifact (?hp r)) ?rs = map (\<lambda>r. mlmd_artifact (assign_state (Some s) (hp r))) ?rs"
    by simp
  have log: "put_artifacts_calls ?h = put_artifacts_calls metadata_handle
               @ (if ?rs = [] then [] else [map (\<lambda>r. mlmd_artifact (?hp r)) ?rs])"
    by (simp cong: map_cong)
  have given: "map (\<lambda>r. mlmd_artifact (?hp r)) ?rs = map (\<lambda>r. (mlmd_artifact (hp r))\<lparr>state_value := s\<rparr>) ?rs"
    using s by (simp add: assign_state_truthy set_state_def)
  from res st log given show ?thesis
    by blast
qed

text \<open>Three entries, two of them the same artifact object: one call with three records.\<close>

theorem update_artifacts_new_state_witness:
  "id_a (mlmd_artifact (example_heap 10)) \<noteq> None
   \<and> id_a (mlmd_artifact (example_heap 20)) \<noteq> None
   \<and> ''PUBLISHED'' \<noteq> []
   \<and> fst (update_artifacts example_store example_heap [(''examples'', [10, 10]), (''model'', [20])] (Some ''PUBLISHED''))
       = Inr ()
   \<and> map (\<lambda>r. state (fst (snd (update_artifacts example_store example_heap
         [(''examples'', [10, 10]), (''model'', [20])] (Some ''PUBLISHED''))) r)) [10, 10, 20]
       = [''PUBLISHED'', ''PUBLISHED'', ''PUBLISHED'']
   \<and> put_artifacts_calls (snd (snd (update_artifacts example_store example_heap
         [(''examples'', [10, 10]), (''model'', [20])] (Some ''PUBLISHED''))))
       = [[artifact_1\<lparr>state_value := ''PUBLISHED''\<rparr>, artifact_1\<lparr>state_value := ''PUBLISHED''\<rparr>,
           artifact_2\<lparr>state_value := ''PUBLISHED''\<rparr>]]"
proof -
  let ?m = "[(''examples'', [10, 10]), (''model'', [20 :: nat])]"
  have rs: "chain_values ?m = [10, 10, 20]"
    by (simp add: chain_values_def)
  have h1: "id_a (mlmd_artifact (example_heap 10)) \<noteq> None"
    and h2: "id_a (mlmd_artifact (example_heap 20)) \<noteq> None"
    by (simp_all add: example_defs)
  then have ids: "\<forall>r \<in> set (chain_values ?m). id_a (mlmd_artifact (example_heap r)) \<noteq> None"
    unfolding rs by simp
  have s: "''PUBLISHED'' \<noteq> []"
    by simp
  from update_artifacts_new_state [OF ids s, of example_store]
  obtain hp' h' where res: "update_artifacts example_store example_heap ?m (Some ''PUBLISHED'') = (Inr (), hp', h')"
    and st: "\<forall>r \<in> set (chain_values ?m). state (hp' r) = ''PUBLISHED''"
    and log: "put_artifacts_calls h' = put_artifacts_calls example_store
               @ (if chain_values ?m = [] then [] else [map (\<lambda>r. mlmd_artifact (hp' r)) (chain_values ?m)])"
    and given: "map (\<lambda>r. mlmd_artifact (hp' r)) (chain_values ?m)
                  = map (\<lambda>r. (mlmd_artifact (example_heap r))\<lparr>state_value := ''PUBLISHED''\<rparr>) (chain_values ?m)"
    by blast
  from st have c1: "map (\<lambda>r. state (hp' r)) [10, 10, 20] = [''PUBLISHED'', ''PUBLISHED'', ''PUBLISHED'']"
    unfolding rs by simp
  from log given have c2: "put_artifacts_calls h'
       = [[artifact_1\<lparr>state_value := ''PUBLISHED''\<rparr>, artifact_1\<lparr>state_value := ''PUBLISHED''\<rparr>,
           artifact_2\<lparr>state_value := ''PUBLISHED''\<rparr>]]"
    unfolding rs by (simp add: example_heap_def example_store_def)
  from res c1 c2 h1 h2 s show ?thesis
    by simp
qed

text \<open>
  Claim C6, as the code has it. The loop checks and assigns artifact by artifact. When it
  ends at the first artifact without identifier, the store has not been written and every
  artifact object that does not occur before that artifact in the flattened multi-map is
  as it was; the artifacts that occur before it have gone through the assignment of the
  new state. With no new state, or the empty one, no artifact has changed.
\<close>

theorem update_artifacts_failure_heap:
  assumes "chain_values tfx_artifact_map = pre @ r # post"
    and "\<forall>q \<in> set pre. id_a (mlmd_artifact (hp q)) \<noteq> None"
    and "id_a (mlmd_artifact (hp r)) = None"
  shows "\<exists>hp'. update_artifacts metadata_handle hp tfx_artifact_map new_artifact_state
             = (Inl (ValueError ''Artifact must have an MLMD ID in order to be updated.''), hp', metadata_handle)
         \<and> (\<forall>q. q \<notin> set pre \<longrightarrow> hp' q = hp q)
         \<and> (\<forall>q \<in> set pre. hp' q = assign_state new_artifact_state (hp q))
         \<and> (new_artifact_state = None \<or> new_artifact_state = Some [] \<longrightarrow> hp' = hp)"
proof -
  let ?hp = "\<lambda>q. if q \<in> set pre then assign_state new_artifact_state (hp q) else hp q"
  have res: "update_artifacts metadata_handle hp tfx_artifact_map new_artifact_state
             = (Inl (ValueError ''Artifact must have an MLMD ID in order to be updated.''), ?hp, metadata_handle)"
    by (rule update_artifacts_fail [OF assms])
  have "new_artifact_state = None \<or> new_artifact_state = Some [] \<longrightarrow> ?hp = hp"
    by (auto simp: fun_eq_iff)
  with res show ?thesis
    by (intro exI [of _ ?hp]) simp
qed

text \<open>The artifact at 10 precedes the one without identifier at 30; the one at 20 follows it.\<close>

theorem update_artifacts_failure_heap_witness:
  "chain_values [(''examples'', [10, 30]), (''model'', [20])] = [10] @ 30 # [20]
   \<and> id_a (mlmd_artifact (example_heap 10)) \<noteq> None
   \<and> id_a (mlmd_artifact (example_heap 30)) = None
   \<and> fst (update_artifacts example_store example_heap [(''examples'', [10, 30]), (''model'', [20])] (Some ''PUBLISHED''))
       = Inl (ValueError ''Artifact must have an MLMD ID in order to be updated.'')
   \<and> fst (snd (update_artifacts example_store example_heap [(''examples'', [10, 30]), (''model'', [20])]
         (Some ''PUBLISHED''))) 20 = example_heap 20
   \<and> fst (snd (update_artifacts example_store example_heap [(''examples'', [10, 30]), (''model'', [20])]
         (Some ''PUBLISHED''))) 30 = example_heap 30
   \<and> fst (snd (update_artifacts example_store example_heap [(''examples'', [10, 30]), (''model'', [20])]
         (Some ''PUBLISHED''))) 10 = set_state ''PUBLISHED'' (example_heap 10)
   \<and> fst (snd (update_artifacts example_store example_heap [(''examples'', [10, 30]), (''model'', [20])]
         (Some []))) = example_heap"
proof -
  let ?m = "[(''examples'', [10, 30]), (''model'', [20 :: nat])]"
  have h1: "chain_values ?m = [10] @ 30 # [20]"
    by (simp add: chain_values_def)
  have h2: "id_a (mlmd_artifact (example_heap 10)) \<noteq> None"
    by (simp add: example_defs)
  then have h2': "\<forall>q \<in> set [10]. id_a (mlmd_artifact (example_heap q)) \<noteq> None"
    by simp
  have h3: "id_a (mlmd_artifact (example_heap 30)) = None"
    by (simp add: example_defs)
  from update_artifacts_failure_heap [OF h1 h2' h3, of example_store "Some ''PUBLISHED''"]
  obtain hp' where res: "update_artifacts example_store example_heap ?m (Some ''PUBLISHED'')
             = (Inl (ValueError ''Artifact must have an MLMD ID in order to be updated.''), hp', example_store)"
    and out: "\<forall>q. q \<notin> set [10] \<longrightarrow> hp' q = example_heap q"
    and ins: "\<forall>q \<in> set [10 :: nat]. hp' q = assign_state (Some ''PUBLISHED'') (example_heap q)"
    by blast
  from out have c1: "hp' 20 = example_heap 20" and c2: "hp' 30 = example_heap 30"
    by simp_all
  from ins have c3: "hp' 10 = set_state ''PUBLISHED'' (example_heap 10)"
    by (simp add: assign_state_def)
  from update_artifacts_failure_heap [OF h1 h2' h3, of example_store "Some []"]
  have c4: "fst (snd (update_artifacts example_store example_heap ?m (Some []))) = example_heap"
    by auto
  from h1 h2 h3 res c1 c2 c3 c4 show ?thesis
    by simp
qed

text \<open>
  C6 as stated fails: the call ends with the \<open>ValueError\<close> because of the artifact at 30,
  and the artifact at 10, which was \<open>LIVE\<close>, is \<open>PUBLISHED\<close> afterwards.
\<close>

theorem update_artifacts_partial_state_counterexample:
  "id_a (mlmd_artifact (example_heap 30)) = None
   \<and> fst (update_artifacts example_store example_heap [(''examples'', [10, 30])] (Some ''PUBLISHED''))
       = Inl (ValueError ''Artifact must have an MLMD ID in order to be updated.'')
   \<and> state (example_heap 10) = ''LIVE''
   \<and> state (fst (snd (update_artifacts example_store example_heap [(''examples'', [10, 30])]
         (Some ''PUBLISHED''))) 10) = ''PUBLISHED''"
  by (simp add: eval_defs example_defs)

text \<open>
  Claim C7. For a multi-map whose values flatten to the empty sequence, the empty multi-map
  among them, \<open>update_artifacts\<close> returns normally and leaves heap and handle as they
  were: no call of \<open>put_artifacts\<close> is logged.
\<close>

theorem update_artifacts_empty:
  assumes "chain_values tfx_artifact_map = []"
  shows "update_artifacts metadata_handle hp tfx_artifact_map new_artifact_state = (Inr (), hp, metadata_handle)"
  using assms by (simp add: update_artifacts_def)

text \<open>The empty multi-map, and a multi-map with two keys and no artifact.\<close>

theorem update_artifacts_empty_witness:
  "chain_values [] = []
   \<and> update_artifacts example_store example_heap [] (Some ''PUBLISHED'') = (Inr (), example_heap, example_store)
   \<and> chain_values [(''examples'', []), (''model'', [])] = []
   \<and> update_artifacts example_store example_heap [(''examples'', []), (''model'', [])] None
       = (Inr (), example_heap, example_store)
   \<and> put_artifacts_calls example_store = []"
proof -
  have h1: "chain_values [] = []"
    and h2: "chain_values [(''examples'', []), (''model'', [])] = []"
    by (simp_all add: chain_values_def)
  from update_artifacts_empty [OF h1, of example_store example_heap "Some ''PUBLISHED''"]
    update_artifacts_empty [OF h2, of example_store example_heap None] h1 h2
  show ?thesis
    by (simp add: example_store_def)
qed

text \<open>
  Claim C9. If every artifact of the multi-map has an identifier, a call with the empty
  string as new state leaves every artifact as it was, hands the unchanged records to the
  store in one call (when there is a record at all), and is the same as a call with no
  new state.
\<close>

theorem update_artifacts_empty_state:
  assumes "\<forall>r \<in> set (chain_values tfx_artifact_map). id_a (mlmd_artifact (hp r)) \<noteq> None"
  shows "update_artifacts metadata_handle hp tfx_artifact_map (Some [])
           = (Inr (), hp,
              if chain_values tfx_artifact_map \<noteq> []
              then metadata_handle\<lparr>put_artifacts_calls := put_artifacts_calls metadata_handle
                     @ [map (\<lambda>r. mlmd_artifact (hp r)) (chain_values tfx_artifact_map)]\<rparr>
              else metadata_handle)
       \<and> update_artifacts metadata_handle hp tfx_artifact_map (Some [])
           = update_artifacts metadata_handle hp tfx_artifact_map None"
proof -
  let ?rs = "chain_values tfx_artifact_map"
  have heap: "(\<lambda>q. if q \<in> set ?rs then assign_state ns (hp q) else hp q) = hp"
    if "ns = None \<or> ns = Some []" for ns
    using that by (auto simp: fun_eq_iff)
  have recs: "map (\<lambda>r. mlmd_artifact (assign_state ns (hp r))) ?rs = map (\<lambda>r. mlmd_artifact (hp r)) ?rs"
    if "ns = None \<or> ns = Some []" for ns
    using that by auto
  from update_artifacts_ok [OF assms, of metadata_handle "Some []"] update_artifacts_ok [OF assms, of metadata_handle None]
  show ?thesis
    by (simp only: heap recs simp_thms)
qed

text \<open>Two stored artifacts and the empty string: both records are written unchanged.\<close>

theorem update_artifacts_empty_state_witness:
  "id_a (mlmd_artifact (example_heap 10)) \<noteq> None
   \<and> id_a (mlmd_artifact (example_heap 20)) \<noteq> None
   \<and> fst (update_artifacts example_store example_heap [(''examples'', [10]), (''model'', [20])] (Some [])) = Inr ()
   \<and> fst (snd (update_artifacts example_store example_heap [(''examples'', [10]), (''model'', [20])] (Some [])))
       = example_heap
   \<and> put_artifacts_calls (snd (snd (update_artifacts example_store example_heap
         [(''examples'', [10]), (''model'', [20])] (Some [])))) = [[artifact_1, artifact_2]]"
proof -
  let ?m = "[(''examples'', [10]), (''model'', [20 :: nat])]"
  have rs: "chain_values ?m = [10, 20]"
    by (simp add: chain_values_def)
  have h1: "id_a (mlmd_artifact (example_heap 10)) \<noteq> None"
    and h2: "id_a (mlmd_artifact (example_heap 20)) \<noteq> None"
    by (simp_all add: example_defs)
  then have ids: "\<forall>r \<in> set (chain_values ?m). id_a (mlmd_artifact (example_heap r)) \<noteq> None"
    unfolding rs by simp
  from update_artifacts_empty_state [OF ids, of example_store]
  have res: "update_artifacts example_store example_heap ?m (Some [])
           = (Inr (), example_heap,
              example_store\<lparr>put_artifacts_calls := put_artifacts_calls example_store
                     @ [map (\<lambda>r. mlmd_artifact (example_heap r)) [10, 20]]\<rparr>)"
    unfolding rs by simp
  have log: "put_artifacts_calls example_store @ [map (\<lambda>r. mlmd_artifact (example_heap r)) [10, 20]]
       = [[artifact_1, artifact_2]]"
    by (simp add: example_heap_def example_store_def)
  from res log h1 h2 show ?thesis
    by simp
qed

text \<open>
  Claim C10. Whatever the outcome of \<open>update_artifacts\<close>, every artifact object is
  afterwards the object it was with at most its state replaced; objects outside the
  multi-map are untouched, and with no new state or the empty one nothing changes at all.
  The log of \<open>put_artifacts\<close> calls is unchanged or has one more batch, and that batch
  holds, for each entry of the flattened multi-map, the record the caller gave with the
  state field as it is after the call and every other field as given.
\<close>

theorem update_artifacts_frame:
  assumes res: "update_artifacts metadata_handle hp tfx_artifact_map new_artifact_state
                  = (outcome, hp', metadata_handle')"
  shows "(\<forall>q. hp' q = set_state (state (hp' q)) (hp q))
       \<and> (\<forall>q. q \<notin> set (chain_values tfx_artifact_map) \<longrightarrow> hp' q = hp q)
       \<and> (new_artifact_state = None \<or> new_artifact_state = Some [] \<longrightarrow> hp' = hp)
       \<and> (put_artifacts_calls metadata_handle' = put_artifacts_calls metadata_handle
          \<or> put_artifacts_calls metadata_handle'
              = put_artifacts_calls metadata_handle
                @ [map (\<lambda>r. (mlmd_artifact (hp r))\<lparr>state_value := state (hp' r)\<rparr>)
                     (chain_values tfx_artifact_map)])"
proof (cases "\<exists>r \<in> set (chain_values tfx_artifact_map). id_a (mlmd_artifact (hp r)) = None")
  case True
  from first_without_id [OF True] obtain pre r post
    where split: "chain_values tfx_artifact_map = pre @ r # post"
      and pre: "\<forall>q \<in> set pre. id_a (mlmd_artifact (hp q)) \<noteq> None"
      and r: "id_a (mlmd_artifact (hp r)) = None"
    by blast
  from update_artifacts_fail [OF split pre r, of metadata_handle new_artifact_state] res
  have hp': "hp' = (\<lambda>q. if q \<in> set pre then assign_state new_artifact_state (hp q) else hp q)"
    and h': "metadata_handle' = metadata_handle"
    by simp_all
  have "\<forall>q. q \<notin> set (chain_values tfx_artifact_map) \<longrightarrow> q \<notin> set pre"
    by (simp add: split)
  with assigned_heap_frame [OF hp'] h' show ?thesis
    by blast
next
  case False
  let ?rs = "chain_values tfx_artifact_map"
  from False have ids: "\<forall>r \<in> set ?rs. id_a (mlmd_artifact (hp r)) \<noteq> None"
    by simp
  from update_artifacts_ok [OF ids, of metadata_handle new_artifact_state] res
  have hp': "hp' = (\<lambda>q. if q \<in> set ?rs then assign_state new_artifact_state (hp q) else hp q)"
    and h': "metadata_handle' = (if ?rs \<noteq> []
        then metadata_handle\<lparr>put_artifacts_calls := put_artifacts_calls metadata_handle
                 @ [map (\<lambda>r. mlmd_artifact (assign_state new_artifact_state (hp r))) ?rs]\<rparr>
        else metadata_handle)"
    by simp_all
  have "map (\<lambda>r. mlmd_artifact (assign_state new_artifact_state (hp r))) ?rs
      = map (\<lambda>r. (mlmd_artifact (hp r))\<lparr>state_value := state (hp' r)\<rparr>) ?rs"
    unfolding hp' using mlmd_artifact_assign_state [of new_artifact_state] by simp
  with h' have log: "put_artifacts_calls metadata_handle' = put_artifacts_calls metadata_handle
          \<or> put_artifacts_calls metadata_handle'
              = put_artifacts_calls metadata_handle
                @ [map (\<lambda>r. (mlmd_artifact (hp r))\<lparr>state_value := state (hp' r)\<rparr>) ?rs]"
    by (cases "?rs = []") simp_all
  from assigned_heap_frame [OF hp']
  have "\<forall>q. hp' q = set_state (state (hp' q)) (hp q)"
    and "\<forall>q. q \<notin> set ?rs \<longrightarrow> hp' q = hp q"
    and "new_artifact_state = None \<or> new_artifact_state = Some [] \<longrightarrow> hp' = hp"
    by blast+
  with log show ?thesis
    by blast
qed

text \<open>
  The record at 20 keeps its properties, identifier and type, the object at 30 is not in
  the multi-map, and the empty new state changes nothing.
\<close>

theorem update_artifacts_frame_witness:
  "properties (mlmd_artifact (fst (snd (update_artifacts example_store example_heap
       [(''examples'', [10]), (''model'', [20])] (Some ''PUBLISHED''))) 20)) = [(''span'', ''7'')]
   \<and> id_a (mlmd_artifact (fst (snd (update_artifacts example_store example_heap
       [(''examples'', [10]), (''model'', [20])] (Some ''PUBLISHED''))) 20)) = Some 2
   \<and> artifact_type (fst (snd (update_artifacts example_store example_heap
       [(''examples'', [10]), (''model'', [20])] (Some ''PUBLISHED''))) 20) = type_B
   \<and> 30 \<notin> set (chain_values [(''examples'', [10]), (''model'', [20])])
   \<and> fst (snd (update_artifacts example_store example_heap
       [(''examples'', [10]), (''model'', [20])] (Some ''PUBLISHED''))) 30 = example_heap 30
   \<and> fst (snd (update_artifacts example_store example_heap
       [(''examples'', [10]), (''model'', [20])] (Some []))) = example_heap"
proof -
  let ?m = "[(''examples'', [10]), (''model'', [20 :: nat])]"
  let ?U = "update_artifacts example_store example_heap ?m (Some ''PUBLISHED'')"
  let ?V = "update_artifacts example_store example_heap ?m (Some [])"
  have u: "?U = (fst ?U, fst (snd ?U), snd (snd ?U))"
    and v: "?V = (fst ?V, fst (snd ?V), snd (snd ?V))"
    by simp_all
  have notin: "30 \<notin> set (chain_values ?m)"
    by (simp add: chain_values_def)
  from update_artifacts_frame [OF u]
  have same: "fst (snd ?U) 20 = set_state (state (fst (snd ?U) 20)) (example_heap 20)"
    and out: "30 \<notin> set (chain_values ?m) \<longrightarrow> fst (snd ?U) 30 = example_heap 30"
    by blast+
  from same have "\<exists>s. fst (snd ?U) 20 = set_state s (example_heap 20)"
    by (rule exI)
  then obtain s where same': "fst (snd ?U) 20 = set_state s (example_heap 20)"
    by blast
  have c1: "properties (mlmd_artifact (fst (snd ?U) 20)) = properties (mlmd_artifact (example_heap 20))"
    and c2: "id_a (mlmd_artifact (fst (snd ?U) 20)) = id_a (mlmd_artifact (example_heap 20))"
    and c3: "artifact_type (fst (snd ?U) 20) = artifact_type (example_heap 20)"
    by (simp_all only: same' set_state_fields)
  from update_artifacts_frame [OF v]
  have c5: "fst (snd ?V) = example_heap"
    by blast
  from c1 c2 c3 notin out c5 show ?thesis
    by (simp add: example_defs)
qed

end
